theory Spec2Isabelle
  imports Main "HOL-Library.AList"
begin

section \<open>Timeline aggregation: values, errors and the Python operations used\<close>

text \<open>
  The aggregator reads match and timeline records that \<open>json.load\<close> has parsed. A parsed
  record is a value of \<open>json\<close>: \<open>JNull\<close> is Python's \<open>None\<close>, an object is the list of
  the items of the parsed dict (its keys are distinct, as those of a dict are), an array is a
  list. Numbers are integers, as the ids, timestamps and coordinates of the timeline format
  are; a number with a fraction or an exponent would be a float and is not part of this model.
  Strings are ASCII.
\<close>

datatype json =
    JNull
  | JBool bool
  | JInt int
  | JStr string
  | JArr "json list"
  | JObj "(string \<times> json) list"

text \<open>The exceptions that the aggregation can raise; all of them are subclasses of \<open>Exception\<close>.\<close>

datatype error = KeyError | TypeError | AttributeError

definition ebind :: "error + 'a \<Rightarrow> ('a \<Rightarrow> error + 'b) \<Rightarrow> error + 'b" where
  "ebind r f = (case r of Inl e \<Rightarrow> Inl e | Inr v \<Rightarrow> f v)"

text \<open>\<open>bool(v)\<close>, the test behind \<open>not v\<close> and \<open>if v\<close>.\<close>

fun truthy :: "json \<Rightarrow> bool" where
  "truthy JNull = False"
| "truthy (JBool b) = b"
| "truthy (JInt i) = (i \<noteq> 0)"
| "truthy (JStr s) = (s \<noteq> [])"
| "truthy (JArr xs) = (xs \<noteq> [])"
| "truthy (JObj kvs) = (kvs \<noteq> [])"

text \<open>\<open>v[k]\<close> with a string key: only a dict can be subscripted by a string.\<close>

fun subscript :: "json \<Rightarrow> string \<Rightarrow> error + json" where
  "subscript (JObj kvs) k = (case map_of kvs k of None \<Rightarrow> Inl KeyError | Some v \<Rightarrow> Inr v)"
| "subscript _ k = Inl TypeError"

text \<open>\<open>d.get(k)\<close> and \<open>d.get(k, default)\<close> on the items of a dict.\<close>

definition dget_or :: "(string \<times> json) list \<Rightarrow> string \<Rightarrow> json \<Rightarrow> json" where
  "dget_or kvs k d = (case map_of kvs k of None \<Rightarrow> d | Some v \<Rightarrow> v)"

definition dget :: "(string \<times> json) list \<Rightarrow> string \<Rightarrow> json" where
  "dget kvs k = dget_or kvs k JNull"

text \<open>\<open>v.get(k, default)\<close> on any value: only a dict has the method.\<close>

fun get_or :: "json \<Rightarrow> string \<Rightarrow> json \<Rightarrow> error + json" where
  "get_or (JObj kvs) k d = Inr (dget_or kvs k d)"
| "get_or _ k d = Inl AttributeError"

text \<open>
  \<open>v == n\<close> for an integer \<open>n\<close> and \<open>v == s\<close> for a string \<open>s\<close>. Python's \<open>True\<close>
  and \<open>False\<close> are the integers 1 and 0; values of different kinds are unequal.
\<close>

fun eq_int :: "json \<Rightarrow> int \<Rightarrow> bool" where
  "eq_int (JInt i) n = (i = n)"
| "eq_int (JBool b) n = ((if b then 1 else 0) = n)"
| "eq_int _ n = False"

fun eq_str :: "json \<Rightarrow> string \<Rightarrow> bool" where
  "eq_str (JStr s) t = (s = t)"
| "eq_str _ t = False"

text \<open>
  \<open>n in v\<close> for an integer \<open>n\<close>: membership in a list, a key test in a dict (whose keys are
  strings, so never equal to \<open>n\<close>), a TypeError on a string and on anything not iterable.
\<close>

fun contains_int :: "json \<Rightarrow> int \<Rightarrow> error + bool" where
  "contains_int (JArr xs) n = Inr (list_ex (\<lambda>x. eq_int x n) xs)"
| "contains_int (JObj kvs) n = Inr False"
| "contains_int _ n = Inl TypeError"

text \<open>\<open>v // d\<close> for an integer \<open>d\<close>: floor division, defined on integers and booleans.\<close>

fun floordiv :: "json \<Rightarrow> int \<Rightarrow> error + int" where
  "floordiv (JInt i) d = Inr (i div d)"
| "floordiv (JBool b) d = Inr ((if b then 1 else 0) div d)"
| "floordiv _ d = Inl TypeError"

text \<open>
  \<open>for x in v\<close>: the elements of a list, the keys of a dict, the characters of a string;
  anything else is not iterable.
\<close>

fun py_iter :: "json \<Rightarrow> error + json list" where
  "py_iter (JArr xs) = Inr xs"
| "py_iter (JObj kvs) = Inr (map (\<lambda>kv. JStr (fst kv)) kvs)"
| "py_iter (JStr s) = Inr (map (\<lambda>c. JStr [c]) s)"
| "py_iter _ = Inl TypeError"

section \<open>The accumulators of \<open>generate_heatmap_data\<close>\<close>

text \<open>
  \<open>heatmap_data\<close>, \<open>stats\<close> and \<open>timeline_stats\<close> are dicts with the four fixed keys
  \<open>deaths\<close>, \<open>kills\<close>, \<open>assists\<close>, \<open>objectives\<close> (\<open>deaths_count\<close>, ... in \<open>stats\<close>): a
  function of the category. A \<open>defaultdict(int)\<close> of minute buckets is the list of its items.
\<close>

datatype category = Deaths | Kills | Assists | Objectives

type_synonym buckets = "(int \<times> int) list"

record acc =
  heatmap_data :: "category \<Rightarrow> json list"
  stats :: "category \<Rightarrow> int"
  timeline_stats :: "category \<Rightarrow> buckets"

definition acc0 :: acc where
  "acc0 = \<lparr>heatmap_data = (\<lambda>c. []), stats = (\<lambda>c. 0), timeline_stats = (\<lambda>c. [])\<rparr>"

text \<open>\<open>buckets[minute] += 1\<close> on a \<open>defaultdict(int)\<close>, and \<open>buckets.get(minute, 0)\<close>.\<close>

fun bump :: "int \<Rightarrow> buckets \<Rightarrow> buckets" where
  "bump k [] = [(k, 1)]"
| "bump k ((k', v) # m) = (if k' = k then (k', v + 1) # m else (k', v) # bump k m)"

definition bget :: "buckets \<Rightarrow> int \<Rightarrow> int" where
  "bget m k = (case map_of m k of None \<Rightarrow> 0 | Some v \<Rightarrow> v)"

text \<open>The three updates that every branch of the event loop makes for its category.\<close>

definition hit :: "category \<Rightarrow> json \<Rightarrow> int \<Rightarrow> acc \<Rightarrow> acc" where
  "hit c point minute_bucket a =
     a\<lparr>heatmap_data := (heatmap_data a)(c := heatmap_data a c @ [point]),
       stats := (stats a)(c := stats a c + 1),
       timeline_stats := (timeline_stats a)(c := bump minute_bucket (timeline_stats a c))\<rparr>"

section \<open>Classifying and recording one event\<close>

text \<open>
  The \<open>if\<close>/\<open>elif\<close> chain of the event loop, for an event that is a dict with items \<open>ev\<close>:
  the category the event counts for, with the key and the value of the category's own field
  of the heatmap point, or \<open>None\<close> when no branch is taken. \<open>event['type']\<close> raises KeyError
  when the key is missing. The third branch is only reached for a champion kill, for which
  none of the later branches can be taken.
\<close>

definition classify :: "int \<Rightarrow> (string \<times> json) list \<Rightarrow> error + (category \<times> string \<times> json) option" where
  "classify player_participant_id ev =
     (case map_of ev ''type'' of
        None \<Rightarrow> Inl KeyError
      | Some ty \<Rightarrow>
          if eq_str ty ''CHAMPION_KILL'' \<and> eq_int (dget ev ''victimId'') player_participant_id
          then Inr (Some (Deaths, ''killer_id'', dget ev ''killerId''))
          else if eq_str ty ''CHAMPION_KILL'' \<and> eq_int (dget ev ''killerId'') player_participant_id
          then Inr (Some (Kills, ''victim_id'', dget ev ''victimId''))
          else if eq_str ty ''CHAMPION_KILL''
          then ebind (contains_int (dget_or ev ''assistingParticipantIds'' (JArr [])) player_participant_id)
                 (\<lambda>b. if b then Inr (Some (Assists, ''victim_id'', dget ev ''victimId'')) else Inr None)
          else if eq_str ty ''ELITE_MONSTER_KILL'' \<and> eq_int (dget ev ''killerId'') player_participant_id
          then Inr (Some (Objectives, ''monster_type'', dget ev ''monsterType''))
          else if eq_str ty ''BUILDING_KILL''
          then ebind (contains_int (dget_or ev ''assistingParticipantIds'' (JArr [])) player_participant_id)
                 (\<lambda>b. if b \<or> eq_int (dget ev ''killerId'') player_participant_id
                      then Inr (Some (Objectives, ''building_type'', dget ev ''buildingType''))
                      else Inr None)
          else Inr None)"

text \<open>The heatmap point of an event: \<open>pos['x']\<close> and \<open>pos['y']\<close> can raise.\<close>

definition mk_point :: "json \<Rightarrow> json \<Rightarrow> json \<Rightarrow> string \<Rightarrow> json \<Rightarrow> error + json" where
  "mk_point pos timestamp match_id peer_key peer =
     ebind (subscript pos ''x'') (\<lambda>x.
     ebind (subscript pos ''y'') (\<lambda>y.
       Inr (JObj [(''x'', x), (''y'', y), (''timestamp'', timestamp),
                  (''match_id'', match_id), (peer_key, peer)])))"

text \<open>
  The body of the loop over the events of a frame. \<open>Inl\<close> is an exception raised by this event:
  every statement that can raise comes before the three updates, so the accumulators are then
  as they were before the event.
\<close>

fun process_event :: "int \<Rightarrow> json \<Rightarrow> acc \<Rightarrow> json \<Rightarrow> error + acc" where
  "process_event player_participant_id match_id a (JObj ev) =
     (if \<not> truthy (dget ev ''position'') then Inr a
      else
        ebind (subscript (JObj ev) ''position'') (\<lambda>pos.
        ebind (subscript (JObj ev) ''timestamp'') (\<lambda>timestamp.
        ebind (floordiv timestamp 60000) (\<lambda>minute_bucket.
        ebind (classify player_participant_id ev) (\<lambda>cl.
          case cl of
            None \<Rightarrow> Inr a
          | Some (c, peer_key, peer) \<Rightarrow>
              ebind (mk_point pos timestamp match_id peer_key peer) (\<lambda>point.
                Inr (hit c point minute_bucket a)))))))"
| "process_event player_participant_id match_id a _ = Inl AttributeError"

text \<open>
  The loop over the events of a frame and the loop over the frames of a timeline. An exception
  leaves the loops at once; the accumulators keep what the earlier events have added, and the
  exception is returned beside them.
\<close>

fun process_events :: "int \<Rightarrow> json \<Rightarrow> acc \<Rightarrow> json list \<Rightarrow> acc \<times> error option" where
  "process_events pid match_id a [] = (a, None)"
| "process_events pid match_id a (ev # evs) =
     (case process_event pid match_id a ev of
        Inl e \<Rightarrow> (a, Some e)
      | Inr a' \<Rightarrow> process_events pid match_id a' evs)"

definition frame_events :: "json \<Rightarrow> error + json list" where
  "frame_events frame = ebind (get_or frame ''events'' (JArr [])) py_iter"

fun process_frames :: "int \<Rightarrow> json \<Rightarrow> acc \<Rightarrow> json list \<Rightarrow> acc \<times> error option" where
  "process_frames pid match_id a [] = (a, None)"
| "process_frames pid match_id a (frame # frames) =
     (case frame_events frame of
        Inl e \<Rightarrow> (a, Some e)
      | Inr evs \<Rightarrow>
          (case process_events pid match_id a evs of
             (a', Some e) \<Rightarrow> (a', Some e)
           | (a', None) \<Rightarrow> process_frames pid match_id a' frames))"

section \<open>The corpus and the participant lookup\<close>

text \<open>
  The files on disk are outside the aggregator. A timeline file is its name and what
  \<open>json.load\<close> returns for it, \<open>None\<close> when opening or parsing it raises; the corpus does not
  change during a call, so both passes read the same content. The match files are a function
  of the match id that the glob pattern is built from: \<open>None\<close> when the glob finds no file,
  \<open>Some None\<close> when the first file found cannot be opened or parsed, \<open>Some (Some md)\<close> when
  it parses to \<open>md\<close>. A glob that raises is caught by the caller's handler with the same
  outcome as a lookup that returns \<open>None\<close>, and is read as \<open>None\<close> here. Log messages are
  not modelled.
\<close>

type_synonym timeline_file = "string \<times> json option"

type_synonym match_files = "json \<Rightarrow> json option option"

fun first_index :: "json list \<Rightarrow> string \<Rightarrow> int \<Rightarrow> int option" where
  "first_index [] target_puuid idx = None"
| "first_index (puuid # ps) target_puuid idx =
     (if eq_str puuid target_puuid then Some idx else first_index ps target_puuid (idx + 1))"

definition get_participant_id_for_puuid :: "match_files \<Rightarrow> json \<Rightarrow> string \<Rightarrow> int option" where
  "get_participant_id_for_puuid matches match_id target_puuid =
     (case matches match_id of
        None \<Rightarrow> None
      | Some None \<Rightarrow> None
      | Some (Some match_data) \<Rightarrow>
          (case ebind (ebind (subscript match_data ''metadata'') (\<lambda>m. subscript m ''participants'')) py_iter of
             Inl e \<Rightarrow> None
           | Inr participants \<Rightarrow> first_index participants target_puuid 1))"

text \<open>
  \<open>puuid_to_participant_map\<close>, a dict keyed by match ids. A list or a dict is not hashable and
  raises TypeError as a key; \<open>True\<close> and \<open>False\<close> are the same keys as 1 and 0.
\<close>

type_synonym pmap = "(json \<times> int) list"

fun hashable :: "json \<Rightarrow> bool" where
  "hashable (JArr xs) = False"
| "hashable (JObj kvs) = False"
| "hashable _ = True"

fun norm_key :: "json \<Rightarrow> json" where
  "norm_key (JBool b) = JInt (if b then 1 else 0)"
| "norm_key j = j"

definition dict_set :: "pmap \<Rightarrow> json \<Rightarrow> int \<Rightarrow> error + pmap" where
  "dict_set m k v = (if hashable k then Inr (AList.update (norm_key k) v m) else Inl TypeError)"

definition dict_lookup :: "pmap \<Rightarrow> json \<Rightarrow> error + int option" where
  "dict_lookup m k = (if hashable k then Inr (map_of m (norm_key k)) else Inl TypeError)"

definition match_id_of :: "json \<Rightarrow> error + json" where
  "match_id_of timeline_data = ebind (subscript timeline_data ''metadata'') (\<lambda>m. subscript m ''matchId'')"

section \<open>The two passes over the timeline files\<close>

text \<open>
  The body of the first loop: the \<open>try\<close> block returns the updated map, the handler logs and
  goes on with the map as it was.
\<close>

definition map_timeline :: "match_files \<Rightarrow> string \<Rightarrow> timeline_file \<Rightarrow> pmap \<Rightarrow> pmap" where
  "map_timeline matches target_puuid timeline_file m =
     (if fst timeline_file = ''fetch_summary.json'' then m
      else
        (case snd timeline_file of
           None \<Rightarrow> m
         | Some timeline_data \<Rightarrow>
             (case match_id_of timeline_data of
                Inl e \<Rightarrow> m
              | Inr match_id \<Rightarrow>
                  (case get_participant_id_for_puuid matches match_id target_puuid of
                     None \<Rightarrow> m
                   | Some participant_id \<Rightarrow>
                       if participant_id \<noteq> 0
                       then (case dict_set m match_id participant_id of Inl e \<Rightarrow> m | Inr m' \<Rightarrow> m')
                       else m))))"

text \<open>
  The body of the second loop. The handler logs and goes on; what the events before the
  exception have added to the accumulators stays.
\<close>

definition timeline_frames :: "json \<Rightarrow> error + json list" where
  "timeline_frames timeline_data =
     ebind (ebind (subscript timeline_data ''info'') (\<lambda>i. subscript i ''frames'')) py_iter"

definition process_timeline :: "pmap \<Rightarrow> timeline_file \<Rightarrow> acc \<Rightarrow> acc" where
  "process_timeline m timeline_file a =
     (if fst timeline_file = ''fetch_summary.json'' then a
      else
        (case snd timeline_file of
           None \<Rightarrow> a
         | Some timeline_data \<Rightarrow>
             (case match_id_of timeline_data of
                Inl e \<Rightarrow> a
              | Inr match_id \<Rightarrow>
                  (case dict_lookup m match_id of
                     Inl e \<Rightarrow> a
                   | Inr None \<Rightarrow> a
                   | Inr (Some player_participant_id) \<Rightarrow>
                       (case timeline_frames timeline_data of
                          Inl e \<Rightarrow> a
                        | Inr frames \<Rightarrow> fst (process_frames player_participant_id match_id a frames))))))"

section \<open>The result\<close>

text \<open>
  The returned dict holds values of the input (the fields of the heatmap points), integers,
  strings and one float for each timeline entry. \<open>VRound2 count total\<close> stands for the float
  \<open>round(count / total, 2)\<close>; its value is not computed in this model.
\<close>

datatype pyval =
    V json
  | VRound2 int int
  | VList "pyval list"
  | VDict "(string \<times> pyval) list"

definition max_minute :: "buckets \<Rightarrow> int" where
  "max_minute minute_buckets = (if minute_buckets \<noteq> [] then Max (set (map fst minute_buckets)) else 0)"

text \<open>The entry that \<open>_format_timeline_data\<close> appends for one minute.\<close>

definition timeline_entry :: "int \<Rightarrow> int \<Rightarrow> int \<Rightarrow> int \<Rightarrow> pyval" where
  "timeline_entry minute count cumulative total_matches =
     VDict [(''minute'', V (JInt minute)),
            (''count'', V (JInt count)),
            (''cumulative'', V (JInt cumulative)),
            (''average_per_game'', VRound2 count total_matches)]"

text \<open>The loop of \<open>_format_timeline_data\<close> over \<open>range(0, max_minute + 1)\<close>.\<close>

fun format_loop :: "buckets \<Rightarrow> int \<Rightarrow> int list \<Rightarrow> int \<Rightarrow> pyval list" where
  "format_loop minute_buckets total_matches [] cumulative = []"
| "format_loop minute_buckets total_matches (minute # ms) cumulative =
     (let count = bget minute_buckets minute;
          cumulative' = cumulative + count
      in timeline_entry minute count cumulative' total_matches
         # format_loop minute_buckets total_matches ms cumulative')"

definition format_timeline_data :: "buckets \<Rightarrow> int \<Rightarrow> pyval list" where
  "format_timeline_data minute_buckets total_matches =
     (if minute_buckets = [] then []
      else format_loop minute_buckets total_matches [0 .. max_minute minute_buckets] 0)"

definition empty_response :: "string \<Rightarrow> string \<Rightarrow> pyval" where
  "empty_response puuid player_name =
     VDict [(''player_puuid'', V (JStr puuid)),
            (''player_name'', V (JStr player_name)),
            (''stats'', V (JObj [(''total_matches'', JInt 0), (''deaths_count'', JInt 0),
                                 (''kills_count'', JInt 0), (''assists_count'', JInt 0),
                                 (''objectives_count'', JInt 0)])),
            (''heatmap_data'', V (JObj [(''deaths'', JArr []), (''kills'', JArr []),
                                        (''assists'', JArr []), (''objectives'', JArr [])])),
            (''timeline_data'', VDict [(''deaths'', VList []), (''kills'', VList []),
                                       (''assists'', VList []), (''objectives'', VList [])])]"

definition build_map :: "match_files \<Rightarrow> string \<Rightarrow> timeline_file list \<Rightarrow> pmap" where
  "build_map matches target_puuid timeline_files =
     fold (map_timeline matches target_puuid) timeline_files []"

definition run_events :: "pmap \<Rightarrow> timeline_file list \<Rightarrow> acc" where
  "run_events m timeline_files = fold (process_timeline m) timeline_files acc0"

definition response :: "string \<Rightarrow> string \<Rightarrow> pmap \<Rightarrow> acc \<Rightarrow> pyval" where
  "response target_puuid player_name m a =
     (let total_matches = (if int (length m) \<noteq> 0 then int (length m) else 1)
      in VDict [(''player_puuid'', V (JStr target_puuid)),
                (''player_name'', V (JStr player_name)),
                (''stats'', V (JObj [(''total_matches'', JInt (int (length m))),
                                     (''deaths_count'', JInt (stats a Deaths)),
                                     (''kills_count'', JInt (stats a Kills)),
                                     (''assists_count'', JInt (stats a Assists)),
                                     (''objectives_count'', JInt (stats a Objectives))])),
                (''heatmap_data'', V (JObj [(''deaths'', JArr (heatmap_data a Deaths)),
                                            (''kills'', JArr (heatmap_data a Kills)),
                                            (''assists'', JArr (heatmap_data a Assists)),
                                            (''objectives'', JArr (heatmap_data a Objectives))])),
                (''timeline_data'',
                   VDict [(''deaths'', VList (format_timeline_data (timeline_stats a Deaths) total_matches)),
                          (''kills'', VList (format_timeline_data (timeline_stats a Kills) total_matches)),
                          (''assists'', VList (format_timeline_data (timeline_stats a Assists) total_matches)),
                          (''objectives'', VList (format_timeline_data (timeline_stats a Objectives) total_matches))])])"

definition generate_heatmap_data :: "match_files \<Rightarrow> timeline_file list \<Rightarrow> string \<Rightarrow> string \<Rightarrow> pyval" where
  "generate_heatmap_data matches timeline_files target_puuid player_name =
     (if timeline_files = [] then empty_response target_puuid player_name
      else
        (let m = build_map matches target_puuid timeline_files;
             a = run_events m timeline_files
         in response target_puuid player_name m a))"

section \<open>Reading the result\<close>

text \<open>
  \<open>item v k\<close> is \<open>v[k]\<close> for a dict \<open>v\<close> that has the key, \<open>elems v\<close> the elements of a
  list, \<open>keys v\<close> the keys of a dict in their order, \<open>int_item v k\<close> an integer \<open>v[k]\<close>.
\<close>

fun item :: "pyval \<Rightarrow> string \<Rightarrow> pyval option" where
  "item (VDict kvs) k = map_of kvs k"
| "item (V (JObj kvs)) k = map_option V (map_of kvs k)"
| "item _ k = None"

fun elems :: "pyval \<Rightarrow> pyval list option" where
  "elems (VList xs) = Some xs"
| "elems (V (JArr xs)) = Some (map V xs)"
| "elems _ = None"

fun keys :: "pyval \<Rightarrow> string list option" where
  "keys (VDict kvs) = Some (map fst kvs)"
| "keys (V (JObj kvs)) = Some (map fst kvs)"
| "keys _ = None"

fun int_item :: "string \<Rightarrow> pyval \<Rightarrow> int option" where
  "int_item k v = (case item v k of Some (V (JInt i)) \<Rightarrow> Some i | _ \<Rightarrow> None)"

fun category_key :: "category \<Rightarrow> string" where
  "category_key Deaths = ''deaths''"
| "category_key Kills = ''kills''"
| "category_key Assists = ''assists''"
| "category_key Objectives = ''objectives''"

fun counter_key :: "category \<Rightarrow> string" where
  "counter_key c = category_key c @ ''_count''"

definition heatmap_of :: "pyval \<Rightarrow> category \<Rightarrow> pyval list option" where
  "heatmap_of r c =
     Option.bind (Option.bind (item r ''heatmap_data'') (\<lambda>h. item h (category_key c))) elems"

definition timeline_of :: "pyval \<Rightarrow> category \<Rightarrow> pyval list option" where
  "timeline_of r c =
     Option.bind (Option.bind (item r ''timeline_data'') (\<lambda>t. item t (category_key c))) elems"

definition counter_of :: "pyval \<Rightarrow> category \<Rightarrow> int option" where
  "counter_of r c = Option.bind (item r ''stats'') (int_item (counter_key c))"



section \<open>An example corpus\<close>

text \<open>
  One match \<open>M1\<close> whose third participant is the player \<open>me\<close>, and events of that match:
  a kill by the player, a champion kill in which the player is victim, killer and assistant
  at once, the same event without a position and with an empty position, and an event that
  has a position but no timestamp.
\<close>

definition ex_matches :: match_files where
  "ex_matches match_id =
     (if match_id = JStr ''M1''
      then Some (Some (JObj [(''metadata'',
             JObj [(''participants'', JArr [JStr ''p1'', JStr ''p2'', JStr ''me''])])]))
      else None)"

definition ex_kill :: "(string \<times> json) list" where
  "ex_kill = [(''type'', JStr ''CHAMPION_KILL''), (''timestamp'', JInt 65000),
              (''killerId'', JInt 3), (''victimId'', JInt 7),
              (''position'', JObj [(''x'', JInt 100), (''y'', JInt 200)])]"

definition ex_self :: "(string \<times> json) list" where
  "ex_self = [(''type'', JStr ''CHAMPION_KILL''), (''timestamp'', JInt 130000),
              (''killerId'', JInt 3), (''victimId'', JInt 3),
              (''assistingParticipantIds'', JArr [JInt 3]),
              (''position'', JObj [(''x'', JInt 5), (''y'', JInt 6)])]"

definition ex_no_position :: "(string \<times> json) list" where
  "ex_no_position = [(''type'', JStr ''CHAMPION_KILL''), (''timestamp'', JInt 130000),
                     (''killerId'', JInt 3), (''victimId'', JInt 3)]"

definition ex_empty_position :: "(string \<times> json) list" where
  "ex_empty_position = [(''type'', JStr ''CHAMPION_KILL''), (''timestamp'', JInt 130000),
                        (''killerId'', JInt 3), (''victimId'', JInt 3), (''position'', JObj [])]"

definition ex_no_timestamp :: "(string \<times> json) list" where
  "ex_no_timestamp = [(''type'', JStr ''CHAMPION_KILL''), (''killerId'', JInt 3),
                      (''position'', JObj [(''x'', JInt 1), (''y'', JInt 2)])]"

definition ex_frame :: "json list \<Rightarrow> json" where
  "ex_frame evs = JObj [(''events'', JArr evs)]"

definition ex_timeline :: "json list \<Rightarrow> json" where
  "ex_timeline evs =
     JObj [(''metadata'', JObj [(''matchId'', JStr ''M1'')]),
           (''info'', JObj [(''frames'', JArr [ex_frame evs])])]"

definition ex_corpus :: "timeline_file list" where
  "ex_corpus = [(''timeline_M1.json'', Some (ex_timeline [JObj ex_kill]))]"

definition ex_partial :: "timeline_file list" where
  "ex_partial = [(''timeline_M1.json'', Some (ex_timeline [JObj ex_kill, JObj ex_no_timestamp]))]"

definition ex_no_info :: "timeline_file list" where
  "ex_no_info = [(''timeline_M1.json'', Some (JObj [(''metadata'', JObj [(''matchId'', JStr ''M1'')])]))]"


definition ex_early_kill :: "(string \<times> json) list" where
  "ex_early_kill = [(''type'', JStr ''CHAMPION_KILL''), (''timestamp'', JInt (- 60000)),
                    (''killerId'', JInt 3), (''victimId'', JInt 8),
                    (''position'', JObj [(''x'', JInt 7), (''y'', JInt 9)])]"

definition ex_negative :: "timeline_file list" where
  "ex_negative = [(''timeline_M1.json'', Some (ex_timeline [JObj ex_early_kill, JObj ex_kill]))]"





lemmas model_defs =
  ebind_def dget_def dget_or_def classify_def mk_point_def hit_def acc0_def
  frame_events_def get_participant_id_for_puuid_def dict_set_def dict_lookup_def
  match_id_of_def map_timeline_def timeline_frames_def process_timeline_def
  bget_def max_minute_def timeline_entry_def format_timeline_data_def empty_response_def build_map_def
  run_events_def response_def generate_heatmap_data_def heatmap_of_def timeline_of_def
  counter_of_def

lemmas example_defs =
  ex_matches_def ex_kill_def ex_self_def ex_no_position_def ex_empty_position_def
  ex_no_timestamp_def ex_frame_def ex_timeline_def ex_corpus_def ex_partial_def ex_no_info_def
  ex_early_kill_def ex_negative_def

section \<open>The results for the example corpus\<close>

lemma ex_corpus_result:
  "generate_heatmap_data ex_matches ex_corpus ''me'' ''Player'' =
     VDict [(''player_puuid'', V (JStr ''me'')),
            (''player_name'', V (JStr ''Player'')),
            (''stats'', V (JObj [(''total_matches'', JInt 1), (''deaths_count'', JInt 0),
                                 (''kills_count'', JInt 1), (''assists_count'', JInt 0),
                                 (''objectives_count'', JInt 0)])),
            (''heatmap_data'',
               V (JObj [(''deaths'', JArr []),
                        (''kills'', JArr [JObj [(''x'', JInt 100), (''y'', JInt 200),
                                                (''timestamp'', JInt 65000), (''match_id'', JStr ''M1''),
                                                (''victim_id'', JInt 7)]]),
                        (''assists'', JArr []), (''objectives'', JArr [])])),
            (''timeline_data'',
               VDict [(''deaths'', VList []),
                      (''kills'', VList [VDict [(''minute'', V (JInt 0)), (''count'', V (JInt 0)),
                                                (''cumulative'', V (JInt 0)),
                                                (''average_per_game'', VRound2 0 1)],
                                         VDict [(''minute'', V (JInt 1)), (''count'', V (JInt 1)),
                                                (''cumulative'', V (JInt 1)),
                                                (''average_per_game'', VRound2 1 1)]]),
                      (''assists'', VList []), (''objectives'', VList [])])]"
  by (simp add: model_defs example_defs upto.simps)



text \<open>
  C5, as the code has it. When no timestamp of the corpus is negative, the raw counts of a
  category's timeline add up to the number of the category's heatmap points in the same result.
\<close>

section \<open>Events that leave the accumulators alone\<close>

lemma process_event_skip:
  "\<not> truthy (dget ev ''position'') \<Longrightarrow> process_event p mid a (JObj ev) = Inr a"
  by simp

lemma process_events_drop:
  assumes "\<And>b. process_event p mid b e = Inr b"
  shows "process_events p mid a (evs1 @ e # evs2) = process_events p mid a (evs1 @ evs2)"
  using assms by (induction evs1 arbitrary: a) (auto split: sum.splits)

lemma process_frames_cong:
  assumes "frame_events fr = Inr evs" and "frame_events fr' = Inr evs'"
    and "\<And>b. process_events p mid b evs = process_events p mid b evs'"
  shows "process_frames p mid a (frs1 @ fr # frs2) = process_frames p mid a (frs1 @ fr' # frs2)"
  using assms by (induction frs1 arbitrary: a) (auto split: sum.splits prod.splits option.splits)

lemma process_timeline_cong:
  assumes "match_id_of td = match_id_of td'"
    and "timeline_frames td = Inr frs" and "timeline_frames td' = Inr frs'"
    and "\<And>p mid b. process_frames p mid b frs = process_frames p mid b frs'"
  shows "process_timeline m (n, Some td) a = process_timeline m (n, Some td') a"
  using assms by (simp add: process_timeline_def split: sum.splits option.splits)

lemma map_timeline_cong:
  assumes "match_id_of td = match_id_of td'"
  shows "map_timeline matches t (n, Some td) m = map_timeline matches t (n, Some td') m"
  using assms by (simp add: map_timeline_def)

lemma generate_cong:
  assumes "\<And>m. map_timeline matches t f m = map_timeline matches t f' m"
    and "\<And>m a. process_timeline m f a = process_timeline m f' a"
  shows "generate_heatmap_data matches (fs1 @ f # fs2) t name =
         generate_heatmap_data matches (fs1 @ f' # fs2) t name"
proof -
  have 1: "map_timeline matches t f = map_timeline matches t f'"
    using assms(1) by (intro ext)
  have 2: "\<And>m. process_timeline m f = process_timeline m f'"
    using assms(2) by (intro ext)
  show ?thesis
    by (simp add: generate_heatmap_data_def build_map_def run_events_def 1 2)
qed

lemma drop_skipped_event:
  assumes skip: "\<And>p mid b. process_event p mid b e = Inr b"
    and "frame_events frame = Inr (evs1 @ e # evs2)"
    and "frame_events frame' = Inr (evs1 @ evs2)"
    and "timeline_frames td = Inr (frs1 @ frame # frs2)"
    and "timeline_frames td' = Inr (frs1 @ frame' # frs2)"
    and "match_id_of td = match_id_of td'"
  shows "generate_heatmap_data matches (fs1 @ (n, Some td) # fs2) t name =
         generate_heatmap_data matches (fs1 @ (n, Some td') # fs2) t name"
proof (rule generate_cong)
  fix m
  show "map_timeline matches t (n, Some td) m = map_timeline matches t (n, Some td') m"
    using assms(6) by (rule map_timeline_cong)
next
  fix m a
  have ev: "\<And>p mid b. process_events p mid b (evs1 @ e # evs2) = process_events p mid b (evs1 @ evs2)"
    using skip by (rule process_events_drop)
  have fr: "\<And>p mid b. process_frames p mid b (frs1 @ frame # frs2) =
                        process_frames p mid b (frs1 @ frame' # frs2)"
    using assms(2,3) ev by (rule process_frames_cong)
  show "process_timeline m (n, Some td) a = process_timeline m (n, Some td') a"
    using assms(6,4,5) fr by (rule process_timeline_cong)
qed

section \<open>The order of the classification rules\<close>



section \<open>Events without a usable position\<close>

text \<open>
  C8. An event that has no \<open>position\<close> key leaves every accumulator as it was and raises
  nothing, whatever its type and ids are; the result of the whole aggregation is the one for
  the corpus in which the event is deleted from its frame.
\<close>

theorem positionless_event_contributes_nothing:
  assumes "map_of ev ''position'' = None"
    and "frame_events frame = Inr (evs1 @ JObj ev # evs2)"
    and "frame_events frame' = Inr (evs1 @ evs2)"
    and "timeline_frames td = Inr (frs1 @ frame # frs2)"
    and "timeline_frames td' = Inr (frs1 @ frame' # frs2)"
    and "match_id_of td = match_id_of td'"
  shows "process_event p mid a (JObj ev) = Inr a
       \<and> process_events p mid a (evs1 @ JObj ev # evs2) = process_events p mid a (evs1 @ evs2)
       \<and> generate_heatmap_data matches (fs1 @ (n, Some td) # fs2) puuid name =
           generate_heatmap_data matches (fs1 @ (n, Some td') # fs2) puuid name"
proof -
  have skip: "\<And>p mid b. process_event p mid b (JObj ev) = Inr b"
    using assms(1) by (simp add: dget_def dget_or_def)
  have "process_events p mid a (evs1 @ JObj ev # evs2) = process_events p mid a (evs1 @ evs2)"
    using skip by (rule process_events_drop)
  moreover have "generate_heatmap_data matches (fs1 @ (n, Some td) # fs2) puuid name =
           generate_heatmap_data matches (fs1 @ (n, Some td') # fs2) puuid name"
    using skip assms(2-6) by (rule drop_skipped_event)
  ultimately show ?thesis using skip by simp
qed

theorem positionless_event_contributes_nothing_witness:
  "map_of ex_no_position ''position'' = None
   \<and> frame_events (ex_frame [JObj ex_kill, JObj ex_no_position]) = Inr ([JObj ex_kill] @ JObj ex_no_position # [])
   \<and> frame_events (ex_frame [JObj ex_kill]) = Inr ([JObj ex_kill] @ [])
   \<and> timeline_frames (ex_timeline [JObj ex_kill, JObj ex_no_position]) =
        Inr ([] @ ex_frame [JObj ex_kill, JObj ex_no_position] # [])
   \<and> timeline_frames (ex_timeline [JObj ex_kill]) = Inr ([] @ ex_frame [JObj ex_kill] # [])
   \<and> match_id_of (ex_timeline [JObj ex_kill, JObj ex_no_position]) = match_id_of (ex_timeline [JObj ex_kill])
   \<and> process_event 3 (JStr ''M1'') acc0 (JObj ex_no_position) = Inr acc0
   \<and> generate_heatmap_data ex_matches
        ([] @ (''timeline_M1.json'', Some (ex_timeline [JObj ex_kill, JObj ex_no_position])) # []) ''me'' ''Player'' =
      generate_heatmap_data ex_matches
        ([] @ (''timeline_M1.json'', Some (ex_timeline [JObj ex_kill])) # []) ''me'' ''Player''"
  using positionless_event_contributes_nothing
    [of ex_no_position "ex_frame [JObj ex_kill, JObj ex_no_position]" "[JObj ex_kill]" "[]"
        "ex_frame [JObj ex_kill]" "ex_timeline [JObj ex_kill, JObj ex_no_position]" "[]" "[]"
        "ex_timeline [JObj ex_kill]" 3 "JStr ''M1''" acc0 ex_matches "[]" "''timeline_M1.json''" "[]" "''me''" "''Player''"]
  by (simp add: ex_no_position_def ex_frame_def ex_timeline_def frame_events_def timeline_frames_def
        match_id_of_def ebind_def dget_or_def)

text \<open>
  C10. An event whose \<open>position\<close> is present but falsy (\<open>null\<close>, \<open>false\<close>, 0, an empty
  string, list or object) is skipped in the same way: it behaves as the event with the key
  removed, and the result is the one for the corpus without the event.
\<close>

theorem falsy_position_is_no_position:
  assumes "map_of ev ''position'' = Some v" and "\<not> truthy v"
    and "frame_events frame = Inr (evs1 @ JObj ev # evs2)"
    and "frame_events frame' = Inr (evs1 @ evs2)"
    and "timeline_frames td = Inr (frs1 @ frame # frs2)"
    and "timeline_frames td' = Inr (frs1 @ frame' # frs2)"
    and "match_id_of td = match_id_of td'"
  shows "process_event p mid a (JObj ev) = Inr a
       \<and> process_event p mid a (JObj ev) = process_event p mid a (JObj (AList.delete ''position'' ev))
       \<and> generate_heatmap_data matches (fs1 @ (n, Some td) # fs2) puuid name =
           generate_heatmap_data matches (fs1 @ (n, Some td') # fs2) puuid name"
proof -
  have skip: "\<And>p mid b. process_event p mid b (JObj ev) = Inr b"
    using assms(1,2) by (simp add: dget_def dget_or_def)
  have "map_of (AList.delete ''position'' ev) ''position'' = None"
    by (simp add: delete_conv')
  then have del: "process_event p mid a (JObj (AList.delete ''position'' ev)) = Inr a"
    by (simp add: dget_def dget_or_def)
  have "generate_heatmap_data matches (fs1 @ (n, Some td) # fs2) puuid name =
           generate_heatmap_data matches (fs1 @ (n, Some td') # fs2) puuid name"
    using skip assms(3-7) by (rule drop_skipped_event)
  then show ?thesis using skip del by simp
qed

theorem falsy_position_is_no_position_witness:
  "map_of ex_empty_position ''position'' = Some (JObj []) \<and> \<not> truthy (JObj [])
   \<and> frame_events (ex_frame [JObj ex_kill, JObj ex_empty_position]) = Inr ([JObj ex_kill] @ JObj ex_empty_position # [])
   \<and> frame_events (ex_frame [JObj ex_kill]) = Inr ([JObj ex_kill] @ [])
   \<and> timeline_frames (ex_timeline [JObj ex_kill, JObj ex_empty_position]) =
        Inr ([] @ ex_frame [JObj ex_kill, JObj ex_empty_position] # [])
   \<and> timeline_frames (ex_timeline [JObj ex_kill]) = Inr ([] @ ex_frame [JObj ex_kill] # [])
   \<and> match_id_of (ex_timeline [JObj ex_kill, JObj ex_empty_position]) = match_id_of (ex_timeline [JObj ex_kill])
   \<and> process_event 3 (JStr ''M1'') acc0 (JObj ex_empty_position) = Inr acc0
   \<and> process_event 3 (JStr ''M1'') acc0 (JObj ex_empty_position) =
       process_event 3 (JStr ''M1'') acc0 (JObj ex_no_position)
   \<and> AList.delete ''position'' ex_empty_position = ex_no_position
   \<and> generate_heatmap_data ex_matches
        ([] @ (''timeline_M1.json'', Some (ex_timeline [JObj ex_kill, JObj ex_empty_position])) # []) ''me'' ''Player'' =
      generate_heatmap_data ex_matches
        ([] @ (''timeline_M1.json'', Some (ex_timeline [JObj ex_kill])) # []) ''me'' ''Player''"
  using falsy_position_is_no_position
    [of ex_empty_position "JObj []" "ex_frame [JObj ex_kill, JObj ex_empty_position]" "[JObj ex_kill]" "[]"
        "ex_frame [JObj ex_kill]" "ex_timeline [JObj ex_kill, JObj ex_empty_position]" "[]" "[]"
        "ex_timeline [JObj ex_kill]" 3 "JStr ''M1''" acc0 ex_matches "[]" "''timeline_M1.json''" "[]" "''me''" "''Player''"]
  by (simp add: ex_empty_position_def ex_no_position_def ex_frame_def ex_timeline_def frame_events_def
        timeline_frames_def match_id_of_def ebind_def dget_or_def dget_def AList.delete_eq)

section \<open>Records that fail while they are processed\<close>








section \<open>The shape of the result\<close>

text \<open>
  C9. With no timeline file the call returns the empty response at once: \<open>total_matches\<close> and
  the four counters are 0, the four heatmap lists and the four timeline lists are present and
  empty. The result is the same for every content of the match files, which are not consulted.
\<close>

theorem empty_corpus_gives_empty_result:
  "generate_heatmap_data matches [] puuid name =
     VDict [(''player_puuid'', V (JStr puuid)),
            (''player_name'', V (JStr name)),
            (''stats'', V (JObj [(''total_matches'', JInt 0), (''deaths_count'', JInt 0),
                                 (''kills_count'', JInt 0), (''assists_count'', JInt 0),
                                 (''objectives_count'', JInt 0)])),
            (''heatmap_data'', V (JObj [(''deaths'', JArr []), (''kills'', JArr []),
                                        (''assists'', JArr []), (''objectives'', JArr [])])),
            (''timeline_data'', VDict [(''deaths'', VList []), (''kills'', VList []),
                                       (''assists'', VList []), (''objectives'', VList [])])]
   \<and> generate_heatmap_data matches [] puuid name = empty_response puuid name
   \<and> (\<forall>c. counter_of (generate_heatmap_data matches [] puuid name) c = Some 0
          \<and> heatmap_of (generate_heatmap_data matches [] puuid name) c = Some []
          \<and> timeline_of (generate_heatmap_data matches [] puuid name) c = Some [])"
proof -
  have "counter_of (empty_response puuid name) c = Some 0
          \<and> heatmap_of (empty_response puuid name) c = Some []
          \<and> timeline_of (empty_response puuid name) c = Some []" for c
    by (cases c) (simp_all add: empty_response_def counter_of_def heatmap_of_def timeline_of_def)
  then show ?thesis
    by (simp add: generate_heatmap_data_def) (simp add: empty_response_def)
qed

lemma format_loop_keys:
  "list_all (\<lambda>e. keys e = Some [''minute'', ''count'', ''cumulative'', ''average_per_game''])
     (format_loop m t ms cum)"
  by (induction ms arbitrary: cum) (simp_all add: Let_def timeline_entry_def)

lemma format_timeline_data_keys:
  "list_all (\<lambda>e. keys e = Some [''minute'', ''count'', ''cumulative'', ''average_per_game''])
     (format_timeline_data m t)"
  by (simp add: format_timeline_data_def format_loop_keys)

lemma timeline_of_response:
  "timeline_of (response t name m a) c =
     Some (format_timeline_data (timeline_stats a c) (if int (length m) \<noteq> 0 then int (length m) else 1))"
  by (cases c) (simp_all add: response_def timeline_of_def Let_def)

lemma timeline_of_empty: "timeline_of (empty_response t name) c = Some []"
  by (cases c) (simp_all add: empty_response_def timeline_of_def)

text \<open>
  C3, as the code has it. The result is a dict with the keys \<open>player_puuid\<close>, \<open>player_name\<close>,
  \<open>stats\<close>, \<open>heatmap_data\<close> and \<open>timeline_data\<close>; \<open>stats\<close> has the keys \<open>total_matches\<close>,
  \<open>deaths_count\<close>, \<open>kills_count\<close>, \<open>assists_count\<close> and \<open>objectives_count\<close>; both
  \<open>heatmap_data\<close> and \<open>timeline_data\<close> have the four category keys; every timeline entry has
  the keys \<open>minute\<close>, \<open>count\<close>, \<open>cumulative\<close> and \<open>average_per_game\<close>.
\<close>

theorem result_keys:
  "keys (generate_heatmap_data matches files puuid name) =
     Some [''player_puuid'', ''player_name'', ''stats'', ''heatmap_data'', ''timeline_data'']
   \<and> Option.bind (item (generate_heatmap_data matches files puuid name) ''stats'') keys =
       Some [''total_matches'', ''deaths_count'', ''kills_count'', ''assists_count'', ''objectives_count'']
   \<and> Option.bind (item (generate_heatmap_data matches files puuid name) ''heatmap_data'') keys =
       Some [''deaths'', ''kills'', ''assists'', ''objectives'']
   \<and> Option.bind (item (generate_heatmap_data matches files puuid name) ''timeline_data'') keys =
       Some [''deaths'', ''kills'', ''assists'', ''objectives'']
   \<and> (\<forall>c. \<exists>series. timeline_of (generate_heatmap_data matches files puuid name) c = Some series
          \<and> list_all (\<lambda>e. keys e = Some [''minute'', ''count'', ''cumulative'', ''average_per_game'']) series)"
proof -
  have "\<exists>series. timeline_of (generate_heatmap_data matches files puuid name) c = Some series
          \<and> list_all (\<lambda>e. keys e = Some [''minute'', ''count'', ''cumulative'', ''average_per_game'']) series" for c
    by (simp add: generate_heatmap_data_def timeline_of_response timeline_of_empty
          format_timeline_data_keys Let_def)
  then show ?thesis
    by (simp add: generate_heatmap_data_def response_def empty_response_def Let_def)
qed

theorem result_keys_witness:
  "keys (generate_heatmap_data ex_matches ex_corpus ''me'' ''Player'') =
     Some [''player_puuid'', ''player_name'', ''stats'', ''heatmap_data'', ''timeline_data'']
   \<and> map_option (map keys) (timeline_of (generate_heatmap_data ex_matches ex_corpus ''me'' ''Player'') Kills) =
       Some [Some [''minute'', ''count'', ''cumulative'', ''average_per_game''],
             Some [''minute'', ''count'', ''cumulative'', ''average_per_game'']]"
  using result_keys [of ex_matches ex_corpus "''me''" "''Player''"]
  by (simp add: ex_corpus_result timeline_of_def)

text \<open>
  C3, as the claim states it, fails: the result has no key \<open>player_id\<close>, \<open>summary\<close>,
  \<open>heatmap\<close> or \<open>timeline\<close>, and its timeline entries have no key \<open>average_per_match\<close>.
\<close>

theorem spec_field_names_counterexample:
  "keys (generate_heatmap_data ex_matches ex_corpus ''me'' ''Player'') \<noteq>
     Some [''player_id'', ''player_name'', ''summary'', ''heatmap'', ''timeline'']
   \<and> item (generate_heatmap_data ex_matches ex_corpus ''me'' ''Player'') ''player_id'' = None
   \<and> item (generate_heatmap_data ex_matches ex_corpus ''me'' ''Player'') ''summary'' = None
   \<and> item (generate_heatmap_data ex_matches ex_corpus ''me'' ''Player'') ''heatmap'' = None
   \<and> item (generate_heatmap_data ex_matches ex_corpus ''me'' ''Player'') ''timeline'' = None
   \<and> map_option (map keys) (timeline_of (generate_heatmap_data ex_matches ex_corpus ''me'' ''Player'') Kills) \<noteq>
       Some [Some [''minute'', ''count'', ''cumulative'', ''average_per_match''],
             Some [''minute'', ''count'', ''cumulative'', ''average_per_match'']]"
  by (simp add: ex_corpus_result timeline_of_def)

section \<open>Minute buckets and the dense series\<close>




lemma fold_bump_snoc: "fold bump (ms @ [k]) m = bump k (fold bump ms m)"
  by simp







section \<open>The accumulators stay consistent\<close>















section \<open>The series against the heatmap and the counters\<close>





















section \<open>The divisor of the averages\<close>

text \<open>
  The float of an entry is \<open>round(count / total_matches, 2)\<close> for the raw count of the entry's
  minute and \<open>total_matches = len(puuid_to_participant_map) or 1\<close>, which is at least 1. The
  value of the float itself is outside this model.
\<close>

lemma format_loop_average:
  "list_all (\<lambda>e. \<exists>n. int_item ''count'' e = Some n \<and> item e ''average_per_game'' = Some (VRound2 n t))
     (format_loop m t ms cum)"
  by (induction ms arbitrary: cum) (simp_all add: Let_def timeline_entry_def)

lemma average_divisor:
  "\<exists>series t. timeline_of (generate_heatmap_data matches files puuid name) c = Some series \<and> 1 \<le> t
     \<and> list_all (\<lambda>e. \<exists>n. int_item ''count'' e = Some n \<and> item e ''average_per_game'' = Some (VRound2 n t)) series"
proof (cases "files = []")
  case True
  have "timeline_of (generate_heatmap_data matches files puuid name) c = Some [] \<and> (1::int) \<le> 1
     \<and> list_all (\<lambda>e. \<exists>n. int_item ''count'' e = Some n \<and> item e ''average_per_game'' = Some (VRound2 n 1)) []"
    using True by (simp add: generate_heatmap_data_def timeline_of_empty)
  then show ?thesis by blast
next
  case False
  define m where "m = build_map matches puuid files"
  define t where "t = (if int (length m) \<noteq> 0 then int (length m) else 1)"
  have "timeline_of (generate_heatmap_data matches files puuid name) c =
          Some (format_timeline_data (timeline_stats (run_events m files) c) t)"
    using False by (simp add: generate_heatmap_data_def timeline_of_response Let_def m_def t_def)
  moreover have "1 \<le> t" by (cases m) (simp_all add: t_def)
  moreover have "list_all (\<lambda>e. \<exists>n. int_item ''count'' e = Some n \<and> item e ''average_per_game'' = Some (VRound2 n t))
                   (format_timeline_data (timeline_stats (run_events m files) c) t)"
    unfolding format_timeline_data_def using format_loop_average by simp
  ultimately show ?thesis by blast
qed

end
